theory Spec2Isabelle
  imports Main
begin

section \<open>Rendered trees\<close>

text \<open>
  A JSX expression evaluates to a tree of elements. An element has a tag name, its
  attributes in the order written (a JSX attribute list, kept as an association list)
  and its children in document order; a run of JSX text is a text leaf, with the leading
  and trailing white space of its lines removed as the JSX reader does.

  Strings are byte strings: a character outside ASCII is written as the bytes of its
  UTF-8 encoding.
\<close>

datatype node =
    Element string "(string \<times> string) list" "node list"
  | Text string

text \<open>The optional fields of a props object are \<open>option\<close>s: \<open>None\<close> is an omitted field.
  The record is extensible, as a props object may carry further fields.\<close>

record LatestChangesProps =
  className :: "string option"

section \<open>The highlight panel (src/unnamed/part\_000)\<close>

text \<open>The glyphs of the three cards and the arrow of the link, as UTF-8:
  U+1F50D, U+26A1, U+1F6E0 U+FE0F and U+2192.\<close>

definition glyph_magnifier :: string where
  "glyph_magnifier = [CHR 0xF0, CHR 0x9F, CHR 0x94, CHR 0x8D]"

definition glyph_bolt :: string where
  "glyph_bolt = [CHR 0xE2, CHR 0x9A, CHR 0xA1]"

definition glyph_tools :: string where
  "glyph_tools = [CHR 0xF0, CHR 0x9F, CHR 0x9B, CHR 0xA0, CHR 0xEF, CHR 0xB8, CHR 0x8F]"

definition glyph_arrow :: string where
  "glyph_arrow = [CHR 0xE2, CHR 0x86, CHR 0x92]"

text \<open>
  \<^verbatim>\<open>const LatestChanges: React.FC<LatestChangesProps> = ({ className = "" }) => { return (...); }\<close>

  The parameter pattern reads the field \<open>className\<close> of the props object and puts the
  empty string in its place when the field is omitted; every other field is ignored.
  The template literal of the root's class is the base class, one space, and then the
  parameter.
\<close>

definition LatestChanges :: "'a LatestChangesProps_scheme \<Rightarrow> node" where
  "LatestChanges props =
    (let className = (case className props of None \<Rightarrow> '''' | Some c \<Rightarrow> c) in
     Element ''div'' [(''className'', ''latest-changes '' @ className)]
      [Element ''div'' [(''className'', ''latest-changes-header'')]
        [Element ''h2'' [] [Text ''Latest Updates''],
         Element ''p'' []
          [Text (''Stay up to date with ChunkHound'' @ [CHR 0x27] @
                 ''s latest features and improvements.'')]],
       Element ''div'' [(''className'', ''latest-changes-grid'')]
        [Element ''div'' [(''className'', ''change-card'')]
          [Element ''div'' [(''className'', ''change-card-header'')]
            [Element ''h3'' [] [Text ''Scalable Code Analysis''],
             Element ''span'' [(''className'', ''rocket-icon'')] [Text glyph_magnifier]],
           Element ''div'' [(''className'', ''change-card-content'')]
            [Element ''div'' [(''className'', ''change-summary'')]
              [Text ''Map-reduce synthesis breaks complex queries into parallel subtasks, preventing context collapse on multi-million LOC codebases.''],
             Element ''ul'' [(''className'', ''change-highlights'')]
              [Element ''li'' [(''className'', ''highlight-item'')]
                [Text ''Numbered citations [1][2][3] replace verbose file.py:123 references''],
               Element ''li'' [(''className'', ''highlight-item'')]
                [Text ''New chunkhound research CLI command for direct code analysis''],
               Element ''li'' [(''className'', ''highlight-item'')]
                [Text ''Automatic query expansion with deduplication casts wider semantic nets'']]]],
         Element ''div'' [(''className'', ''change-card'')]
          [Element ''div'' [(''className'', ''change-card-header'')]
            [Element ''h3'' [] [Text ''Indexing Performance''],
             Element ''span'' [(''className'', ''rocket-icon'')] [Text glyph_bolt]],
           Element ''div'' [(''className'', ''change-card-content'')]
            [Element ''div'' [(''className'', ''change-summary'')]
              [Text ''10-100x faster indexing via native git bindings, parallel directory discovery, and ProcessPoolExecutor for CPU-bound parsing.''],
             Element ''ul'' [(''className'', ''change-highlights'')]
              [Element ''li'' [(''className'', ''highlight-item'')]
                [Text ''RapidYAML parser handles large k8s manifests 10-100x faster than tree-sitter''],
               Element ''li'' [(''className'', ''highlight-item'')]
                [Text ''7 new AST-aware parsers: Swift, Objective-C, Zig, Haskell, HCL, Vue, PHP (29+ total)''],
               Element ''li'' [(''className'', ''highlight-item'')]
                [Text ''Provider-aware embedding batching optimizes API throughput (OpenAI: 8, VoyageAI: 40)'']]]],
         Element ''div'' [(''className'', ''change-card'')]
          [Element ''div'' [(''className'', ''change-card-header'')]
            [Element ''h3'' [] [Text ''Production Tooling''],
             Element ''span'' [(''className'', ''rocket-icon'')] [Text glyph_tools]],
           Element ''div'' [(''className'', ''change-card-content'')]
            [Element ''div'' [(''className'', ''change-summary'')]
              [Text ''New CLI commands and integrations for production workflows and debugging.''],
             Element ''ul'' [(''className'', ''change-highlights'')]
              [Element ''li'' [(''className'', ''highlight-item'')]
                [Text ''simulate (dry-run), diagnose (compare ChunkHound vs git rules), calibrate (auto-tune batch sizes)''],
               Element ''li'' [(''className'', ''highlight-item'')]
                [Text ''TEI reranker format support - two-stage retrieval with cross-encoder, no vendor lock-in''],
               Element ''li'' [(''className'', ''highlight-item'')]
                [Text ''Repo-aware gitignore engine prevents rule leakage between sibling repos'']]]]],
       Element ''div'' [(''className'', ''view-all-link'')]
        [Element ''a'' [(''href'', ''./changelog''), (''className'', ''btn-secondary'')]
          [Text (''View Full Changelog '' @ glyph_arrow)]]])"

section \<open>Reading a rendered tree\<close>

fun attr :: "string \<Rightarrow> node \<Rightarrow> string option" where
  "attr k (Element t as cs) = map_of as k"
| "attr k (Text s) = None"

fun children :: "node \<Rightarrow> node list" where
  "children (Element t as cs) = cs"
| "children (Text s) = []"

fun has_tag :: "string \<Rightarrow> node \<Rightarrow> bool" where
  "has_tag t (Element t' as cs) = (t' = t)"
| "has_tag t (Text s) = False"

definition has_class :: "string \<Rightarrow> node \<Rightarrow> bool" where
  "has_class c n = (attr ''className'' n = Some c)"

text \<open>All elements of a tree in document order, the root first.\<close>

fun elements :: "node \<Rightarrow> node list" where
  "elements (Element t as cs) = Element t as cs # concat (map elements cs)"
| "elements (Text s) = []"

text \<open>The text of a tree: its text leaves, concatenated in document order.\<close>

fun text_content :: "node \<Rightarrow> string" where
  "text_content (Element t as cs) = concat (map text_content cs)"
| "text_content (Text s) = s"

definition elements_by_tag :: "string \<Rightarrow> node \<Rightarrow> node list" where
  "elements_by_tag t n = filter (has_tag t) (elements n)"

definition elements_by_class :: "string \<Rightarrow> node \<Rightarrow> node list" where
  "elements_by_class c n = filter (has_class c) (elements n)"

definition children_by_class :: "string \<Rightarrow> node \<Rightarrow> node list" where
  "children_by_class c n = filter (has_class c) (children n)"

definition text_by_tag :: "string \<Rightarrow> node \<Rightarrow> string" where
  "text_by_tag t n = concat (map text_content (elements_by_tag t n))"

definition text_by_class :: "string \<Rightarrow> node \<Rightarrow> string" where
  "text_by_class c n = concat (map text_content (elements_by_class c n))"

subsection \<open>The parts of the panel\<close>

text \<open>The card elements of a panel are the \<open>change-card\<close> children of the
  \<open>latest-changes-grid\<close> child of its root.\<close>

definition card_elements :: "node \<Rightarrow> node list" where
  "card_elements n =
    concat (map (children_by_class ''change-card'') (children_by_class ''latest-changes-grid'' n))"

text \<open>What a card element shows: the text of its heading, of its icon, of its summary,
  and of each of its highlight items, in order.\<close>

record HighlightCard =
  card_title :: string
  card_icon :: string
  card_summary :: string
  card_highlights :: "string list"

definition card_of :: "node \<Rightarrow> HighlightCard" where
  "card_of n =
    \<lparr>card_title = text_by_tag ''h3'' n,
     card_icon = text_by_class ''rocket-icon'' n,
     card_summary = text_by_class ''change-summary'' n,
     card_highlights = map text_content (elements_by_class ''highlight-item'' n)\<rparr>"

definition cards :: "node \<Rightarrow> HighlightCard list" where
  "cards n = map card_of (card_elements n)"




section \<open>The site configuration (src/astro.config.mjs)\<close>

text \<open>The object literals of the configuration, as records: the options given to the
  documentation theme, and the configuration of the site generator around them.\<close>

record Logo =
  light :: string
  dark :: string
  replacesTitle :: bool

record ExpressiveCode =
  themes :: "string list"

record SocialLink =
  icon :: string
  label :: string
  href :: string

record HeadTag =
  tag :: string
  attrs :: "(string \<times> string) list"

text \<open>A sidebar entry is written with a \<open>slug\<close> or with a \<open>link\<close>; a key that is not
  written is \<open>None\<close>.\<close>

record SidebarItem =
  label :: string
  slug :: "string option"
  link :: "string option"

record StarlightConfig =
  title :: string
  description :: string
  logo :: Logo
  favicon :: string
  customCss :: "string list"
  expressiveCode :: ExpressiveCode
  social :: "SocialLink list"
  head :: "HeadTag list"
  sidebar :: "SidebarItem list"

text \<open>An entry of \<open>integrations\<close> is the call of an integration of the site generator,
  kept with its argument.\<close>

datatype integration = react | starlight StarlightConfig

record AstroConfig =
  site :: string
  base :: string
  redirects :: "(string \<times> string) list"
  integrations :: "integration list"

text \<open>\<open>defineConfig\<close> of the site generator returns the configuration it is given.\<close>

definition defineConfig :: "AstroConfig \<Rightarrow> AstroConfig" where
  "defineConfig c = c"

text \<open>The default export of the module, the configuration that the specification calls
  \<open>buildConfig()\<close>.\<close>

definition buildConfig :: AstroConfig where
  "buildConfig = defineConfig
    \<lparr>site = ''https://chunkhound.github.io'',
     base = ''/'',
     redirects = [(''/code-expert-agent'', ''/code-research'')],
     integrations =
      [react,
       starlight
        \<lparr>title = ''ChunkHound'',
         description = ''Modern RAG for your codebase - semantic and regex search via MCP'',
         logo = \<lparr>light = ''./public/wordmark.svg'', dark = ''./public/wordmark-dark.svg'',
                 replacesTitle = True\<rparr>,
         favicon = ''/favicon.svg'',
         customCss = [''./src/styles/colors.css'', ''./src/styles/changelog.css''],
         expressiveCode = \<lparr>themes = [''github-light'', ''github-dark'']\<rparr>,
         social =
          [\<lparr>icon = ''github'', SocialLink.label = ''GitHub'',
            href = ''https://github.com/chunkhound/chunkhound''\<rparr>],
         head =
          [\<lparr>tag = ''meta'',
            attrs = [(''property'', ''og:image''),
                     (''content'', ''https://chunkhound.github.io/og-image.png'')]\<rparr>,
           \<lparr>tag = ''meta'',
            attrs = [(''property'', ''og:image:width''), (''content'', ''1200'')]\<rparr>,
           \<lparr>tag = ''meta'',
            attrs = [(''property'', ''og:image:height''), (''content'', ''630'')]\<rparr>,
           \<lparr>tag = ''meta'',
            attrs = [(''property'', ''og:type''), (''content'', ''website'')]\<rparr>,
           \<lparr>tag = ''meta'',
            attrs = [(''name'', ''twitter:card''), (''content'', ''summary_large_image'')]\<rparr>,
           \<lparr>tag = ''meta'',
            attrs = [(''name'', ''twitter:image''),
                     (''content'', ''https://chunkhound.github.io/og-image.png'')]\<rparr>],
         sidebar =
          [\<lparr>label = ''Quickstart'', slug = Some ''quickstart'', link = None\<rparr>,
           \<lparr>label = ''How-To Guides'', slug = Some ''how-to'', link = None\<rparr>,
           \<lparr>label = ''Configuration'', slug = Some ''configuration'', link = None\<rparr>,
           \<lparr>label = ''Code Research'', slug = Some ''code-research'', link = None\<rparr>,
           \<lparr>label = ''Benchmark'', slug = Some ''benchmark'', link = None\<rparr>,
           \<lparr>label = ''Under the Hood'', slug = Some ''under-the-hood'', link = None\<rparr>,
           \<lparr>label = ''Origin Story'', slug = Some ''origin-story'', link = None\<rparr>,
           \<lparr>label = ''Contributing'', slug = Some ''contributing'', link = None\<rparr>,
           \<lparr>label = ''Changelog'', slug = None, link = Some ''/changelog''\<rparr>]\<rparr>]\<rparr>"

subsection \<open>Reading the configuration\<close>

fun starlight_options :: "integration list \<Rightarrow> StarlightConfig list" where
  "starlight_options [] = []"
| "starlight_options (react # is) = starlight_options is"
| "starlight_options (starlight c # is) = c # starlight_options is"

text \<open>The navigation of the site is the sidebar given to the theme, its head tags the
  theme's \<open>head\<close> list.\<close>

definition navigation :: "AstroConfig \<Rightarrow> SidebarItem list" where
  "navigation c = concat (map sidebar (starlight_options (integrations c)))"

definition headTags :: "AstroConfig \<Rightarrow> HeadTag list" where
  "headTags c = concat (map head (starlight_options (integrations c)))"

section \<open>Facts about the rendered panel\<close>

lemmas tree_query_defs =
  children_by_class_def has_class_def elements_by_tag_def elements_by_class_def
  text_by_tag_def text_by_class_def card_elements_def cards_def card_of_def

lemmas glyph_defs = glyph_magnifier_def glyph_bolt_def glyph_tools_def glyph_arrow_def

lemma LatestChanges_children_classes:
  "map (attr ''className'') (children (LatestChanges props)) =
     [Some ''latest-changes-header'', Some ''latest-changes-grid'', Some ''view-all-link'']"
  by (simp add: LatestChanges_def Let_def)

lemma LatestChanges_header:
  "map (\<lambda>h. (text_by_tag ''h2'' h, text_by_tag ''p'' h))
       (children_by_class ''latest-changes-header'' (LatestChanges props)) =
     [(''Latest Updates'',
       ''Stay up to date with ChunkHound'' @ [CHR 0x27] @ ''s latest features and improvements.'')]"
  by (simp add: LatestChanges_def Let_def tree_query_defs)

lemma LatestChanges_cards:
  "cards (LatestChanges props) =
    [\<lparr>card_title = ''Scalable Code Analysis'',
      card_icon = glyph_magnifier,
      card_summary = ''Map-reduce synthesis breaks complex queries into parallel subtasks, preventing context collapse on multi-million LOC codebases.'',
      card_highlights =
       [''Numbered citations [1][2][3] replace verbose file.py:123 references'',
        ''New chunkhound research CLI command for direct code analysis'',
        ''Automatic query expansion with deduplication casts wider semantic nets'']\<rparr>,
     \<lparr>card_title = ''Indexing Performance'',
      card_icon = glyph_bolt,
      card_summary = ''10-100x faster indexing via native git bindings, parallel directory discovery, and ProcessPoolExecutor for CPU-bound parsing.'',
      card_highlights =
       [''RapidYAML parser handles large k8s manifests 10-100x faster than tree-sitter'',
        ''7 new AST-aware parsers: Swift, Objective-C, Zig, Haskell, HCL, Vue, PHP (29+ total)'',
        ''Provider-aware embedding batching optimizes API throughput (OpenAI: 8, VoyageAI: 40)'']\<rparr>,
     \<lparr>card_title = ''Production Tooling'',
      card_icon = glyph_tools,
      card_summary = ''New CLI commands and integrations for production workflows and debugging.'',
      card_highlights =
       [''simulate (dry-run), diagnose (compare ChunkHound vs git rules), calibrate (auto-tune batch sizes)'',
        ''TEI reranker format support - two-stage retrieval with cross-encoder, no vendor lock-in'',
        ''Repo-aware gitignore engine prevents rule leakage between sibling repos'']\<rparr>]"
  by (simp add: LatestChanges_def Let_def tree_query_defs)

lemma LatestChanges_links:
  "map (\<lambda>n. length (elements_by_tag ''a'' n)) (children (LatestChanges props)) = [0, 0, 1]"
  by (simp add: LatestChanges_def Let_def elements_by_tag_def)

lemma LatestChanges_anchors:
  "elements_by_tag ''a'' (LatestChanges props) =
     [Element ''a'' [(''href'', ''./changelog''), (''className'', ''btn-secondary'')]
       [Text (''View Full Changelog '' @ glyph_arrow)]]"
  by (simp add: LatestChanges_def Let_def elements_by_tag_def)

lemma LatestChanges_hrefs:
  "filter (\<lambda>e. attr ''href'' e \<noteq> None) (elements (LatestChanges props)) =
     elements_by_tag ''a'' (LatestChanges props)"
  by (simp add: LatestChanges_def Let_def elements_by_tag_def)

lemma LatestChanges_link_place:
  "concat (map (elements_by_tag ''a'') (children_by_class ''view-all-link'' (LatestChanges props))) =
     elements_by_tag ''a'' (LatestChanges props)"
  by (simp add: LatestChanges_def Let_def elements_by_tag_def children_by_class_def has_class_def)

lemma LatestChanges_root_class:
  "attr ''className'' (LatestChanges props) =
     Some (''latest-changes '' @ (case className props of None \<Rightarrow> '''' | Some c \<Rightarrow> c))"
  by (simp add: LatestChanges_def Let_def)

lemma LatestChanges_card_elements:
  "length (card_elements (LatestChanges props)) = 3"
  by (simp add: LatestChanges_def Let_def tree_query_defs)

lemma LatestChanges_default_card_elements:
  "elements_by_class ''change-card'' (LatestChanges \<lparr>className = None\<rparr>) =
     card_elements (LatestChanges \<lparr>className = None\<rparr>)"
  by (simp add: LatestChanges_def Let_def tree_query_defs)


section \<open>Properties of the highlight panel\<close>

text \<open>
  C1. For every props object, whatever its style class (omitted, empty or any text), the
  rendered tree has three children: the header, the grid and the link block, in this
  order. The header shows the fixed title and subtitle. The grid holds exactly three
  cards, the same three in the same order as for the default props, with the titles
  below; every card has a non-empty title, icon, summary and list of highlights. Only
  the last child holds a link, and it holds exactly one.
\<close>

theorem C1_panel_structure:
  "map (attr ''className'') (children (LatestChanges props)) =
     [Some ''latest-changes-header'', Some ''latest-changes-grid'', Some ''view-all-link'']
   \<and> map (\<lambda>h. (text_by_tag ''h2'' h, text_by_tag ''p'' h))
         (children_by_class ''latest-changes-header'' (LatestChanges props)) =
     [(''Latest Updates'',
       ''Stay up to date with ChunkHound'' @ [CHR 0x27] @ ''s latest features and improvements.'')]
   \<and> map card_title (cards (LatestChanges props)) =
     [''Scalable Code Analysis'', ''Indexing Performance'', ''Production Tooling'']
   \<and> cards (LatestChanges props) = cards (LatestChanges \<lparr>className = None\<rparr>)
   \<and> (\<forall>c \<in> set (cards (LatestChanges props)).
         card_title c \<noteq> [] \<and> card_icon c \<noteq> [] \<and> card_summary c \<noteq> [] \<and> card_highlights c \<noteq> [])
   \<and> map (\<lambda>n. length (elements_by_tag ''a'' n)) (children (LatestChanges props)) = [0, 0, 1]"
  by (simp add: LatestChanges_children_classes LatestChanges_header LatestChanges_cards
      LatestChanges_links glyph_defs)

theorem C1_panel_structure_witness:
  "\<lparr>card_title = ''Production Tooling'', card_icon = glyph_tools,
     card_summary = ''New CLI commands and integrations for production workflows and debugging.'',
     card_highlights =
      [''simulate (dry-run), diagnose (compare ChunkHound vs git rules), calibrate (auto-tune batch sizes)'',
       ''TEI reranker format support - two-stage retrieval with cross-encoder, no vendor lock-in'',
       ''Repo-aware gitignore engine prevents rule leakage between sibling repos'']\<rparr>
     \<in> set (cards (LatestChanges \<lparr>className = Some ''wide''\<rparr>))
   \<and> ''Production Tooling'' \<noteq> [] \<and> glyph_tools \<noteq> []
   \<and> map card_title (cards (LatestChanges \<lparr>className = Some ''wide''\<rparr>)) =
       [''Scalable Code Analysis'', ''Indexing Performance'', ''Production Tooling'']"
proof -
  let ?t = "LatestChanges \<lparr>className = Some ''wide''\<rparr>"
  let ?c = "\<lparr>card_title = ''Production Tooling'', card_icon = glyph_tools,
     card_summary = ''New CLI commands and integrations for production workflows and debugging.'',
     card_highlights =
      [''simulate (dry-run), diagnose (compare ChunkHound vs git rules), calibrate (auto-tune batch sizes)'',
       ''TEI reranker format support - two-stage retrieval with cross-encoder, no vendor lock-in'',
       ''Repo-aware gitignore engine prevents rule leakage between sibling repos'']\<rparr>"
  note all = C1_panel_structure [of "\<lparr>className = Some ''wide''\<rparr>"]
  have h: "?c \<in> set (cards ?t)"
    by (simp add: LatestChanges_cards)
  from all have "\<forall>c \<in> set (cards ?t).
      card_title c \<noteq> [] \<and> card_icon c \<noteq> [] \<and> card_summary c \<noteq> [] \<and> card_highlights c \<noteq> []"
    by (elim conjE)
  from bspec [OF this h] have "card_title ?c \<noteq> [] \<and> card_icon ?c \<noteq> []"
    by (elim conjE) (rule conjI)
  then have "''Production Tooling'' \<noteq> [] \<and> glyph_tools \<noteq> []"
    by simp
  moreover from all have "map card_title (cards ?t) =
      [''Scalable Code Analysis'', ''Indexing Performance'', ''Production Tooling'']"
    by (elim conjE)
  ultimately show ?thesis using h by (intro conjI) (elim conjE, assumption)+
qed



text \<open>
  C3. Rendered with no style class, the root's class attribute is the base class
  followed by one space, and the tree holds exactly three card elements: the elements
  of class \<open>change-card\<close> anywhere in the tree are the three cards of the grid.
\<close>

theorem C3_default_render:
  "attr ''className'' (LatestChanges \<lparr>className = None\<rparr>) = Some ''latest-changes ''
   \<and> length (card_elements (LatestChanges \<lparr>className = None\<rparr>)) = 3
   \<and> elements_by_class ''change-card'' (LatestChanges \<lparr>className = None\<rparr>) =
       card_elements (LatestChanges \<lparr>className = None\<rparr>)"
  by (simp add: LatestChanges_root_class LatestChanges_card_elements
      LatestChanges_default_card_elements)




text \<open>
  C8. Each of the three cards has exactly three highlights, for every props object.
\<close>

theorem C8_three_highlights:
  "map (\<lambda>c. length (card_highlights c)) (cards (LatestChanges props)) = [3, 3, 3]"
  by (simp add: LatestChanges_cards)

text \<open>
  C10. For every props object the tree has exactly one \<open>a\<close> element; its \<open>href\<close> is
  \<open>./changelog\<close>, it lies in the trailing \<open>view-all-link\<close> block, and no other element
  of the tree has an \<open>href\<close>.
\<close>

theorem C10_single_link:
  "map (attr ''href'') (elements_by_tag ''a'' (LatestChanges props)) = [Some ''./changelog'']
   \<and> concat (map (elements_by_tag ''a'')
        (children_by_class ''view-all-link'' (LatestChanges props))) =
       elements_by_tag ''a'' (LatestChanges props)
   \<and> filter (\<lambda>e. attr ''href'' e \<noteq> None) (elements (LatestChanges props)) =
       elements_by_tag ''a'' (LatestChanges props)"
  unfolding LatestChanges_link_place LatestChanges_hrefs
  by (simp add: LatestChanges_anchors)

section \<open>Properties of the site configuration\<close>

lemmas config_defs = buildConfig_def defineConfig_def navigation_def headTags_def

text \<open>
  C5. The redirects of the configuration are the single pair from
  \<open>/code-expert-agent\<close> to \<open>/code-research\<close>.
\<close>

theorem C5_redirects:
  "redirects buildConfig = [(''/code-expert-agent'', ''/code-research'')]"
  by (simp add: config_defs)

text \<open>
  C6. No redirect leads to its own source, and no source of a redirect is the target of
  a redirect.
\<close>

theorem C6_no_redirect_chain:
  "\<forall>(k, v) \<in> set (redirects buildConfig).
     k \<noteq> v \<and> k \<notin> snd ` set (redirects buildConfig)"
  by (simp add: config_defs)

theorem C6_no_redirect_chain_witness:
  "(''/code-expert-agent'', ''/code-research'') \<in> set (redirects buildConfig)
   \<and> ''/code-expert-agent'' \<noteq> ''/code-research''
   \<and> ''/code-expert-agent'' \<notin> snd ` set (redirects buildConfig)"
proof -
  have h: "(''/code-expert-agent'', ''/code-research'') \<in> set (redirects buildConfig)"
    by (simp add: config_defs)
  show ?thesis using h bspec [OF C6_no_redirect_chain h] by simp
qed

text \<open>
  C7. The labels of the sidebar are pairwise different, and every sidebar entry has a
  slug or a link but not both.
\<close>

theorem C7_navigation:
  "distinct (map label (navigation buildConfig))
   \<and> (\<forall>e \<in> set (navigation buildConfig). (slug e = None) \<noteq> (link e = None))"
  by (simp add: config_defs)

theorem C7_navigation_witness:
  "\<lparr>label = ''Changelog'', slug = None, link = Some ''/changelog''\<rparr> \<in> set (navigation buildConfig)
   \<and> ((slug \<lparr>label = ''Changelog'', slug = None, link = Some ''/changelog''\<rparr> = None)
        \<noteq> (link \<lparr>label = ''Changelog'', slug = None, link = Some ''/changelog''\<rparr> = None))"
proof -
  have h: "\<lparr>label = ''Changelog'', slug = None, link = Some ''/changelog''\<rparr>
      \<in> set (navigation buildConfig)"
    by (simp add: config_defs)
  from bspec [OF conjunct2 [OF C7_navigation] h] h show ?thesis by simp
qed

text \<open>
  C9. The head list has six entries. Each is a \<open>meta\<close> tag with exactly two attributes:
  first \<open>property\<close> or \<open>name\<close>, then \<open>content\<close> with a non-empty value.
\<close>

theorem C9_head_tags:
  "length (headTags buildConfig) = 6
   \<and> (\<forall>t \<in> set (headTags buildConfig).
        tag t = ''meta''
        \<and> (map fst (attrs t) = [''property'', ''content''] \<or> map fst (attrs t) = [''name'', ''content''])
        \<and> (\<exists>v. map_of (attrs t) ''content'' = Some v \<and> v \<noteq> []))"
  by (simp add: config_defs)

theorem C9_head_tags_witness:
  "\<lparr>tag = ''meta'', attrs = [(''name'', ''twitter:card''), (''content'', ''summary_large_image'')]\<rparr>
     \<in> set (headTags buildConfig)
   \<and> map_of (attrs \<lparr>tag = ''meta'',
        attrs = [(''name'', ''twitter:card''), (''content'', ''summary_large_image'')]\<rparr>) ''content''
       \<noteq> Some []
   \<and> length (headTags buildConfig) = 6"
proof -
  let ?t = "\<lparr>tag = ''meta'',
      attrs = [(''name'', ''twitter:card''), (''content'', ''summary_large_image'')]\<rparr>"
  have h: "?t \<in> set (headTags buildConfig)"
    by (simp add: config_defs)
  from bspec [OF conjunct2 [OF C9_head_tags] h]
  have "\<exists>v. map_of (attrs ?t) ''content'' = Some v \<and> v \<noteq> []"
    by blast
  then have "map_of (attrs ?t) ''content'' \<noteq> Some []" by auto
  with h C9_head_tags show ?thesis by blast
qed

end
